theory Spec2Isabelle
  imports Main
begin

section \<open>The settings module \<^verbatim>\<open>CoreRoot/settings.py\<close>\<close>

text \<open>
  The module is executed once, top to bottom, when it is imported. It reads the process
  environment \<^verbatim>\<open>os.environ\<close> after \<^verbatim>\<open>load_dotenv()\<close> has merged the bindings of
  the local \<^verbatim>\<open>.env\<close> file into it, and binds a fixed set of module-level names. The
  model takes the three things the module depends on as arguments: the directory that
  \<^verbatim>\<open>Path(__file__).resolve().parent.parent\<close> denotes, the \<^verbatim>\<open>.env\<close> file as the
  loader finds it, and the process environment; it returns the exception that ended the
  import, or the process environment as the import leaves it together with the record
  of the names bound.
\<close>

subsection \<open>Python values\<close>

text \<open>
  Several settings are dictionaries whose values have different Python types (strings,
  an integer page size, tuples, lists, nested dictionaries), so they are kept as values
  of a small universal type. A dictionary literal keeps its insertion order.
\<close>

datatype pyval =
    PyNone
  | PyBool bool
  | PyInt int
  | PyStr string
  | PyList "pyval list"
  | PyTuple "pyval list"
  | PyDict "(string \<times> pyval) list"

text \<open>\<^verbatim>\<open>d[k]\<close> on a dictionary value; \<open>None\<close> where Python raises (no such key, or not a
  dictionary).\<close>

fun py_item :: "pyval \<Rightarrow> string \<Rightarrow> pyval option" where
  "py_item (PyDict kvs) k = map_of kvs k"
| "py_item _ k = None"

subsection \<open>The environment and the library calls the module makes\<close>

type_synonym environ = "string \<rightharpoonup> string"

type_synonym path = "string list"

text \<open>
  \<^verbatim>\<open>load_dotenv()\<close> is called without arguments, hence with \<^verbatim>\<open>override=False\<close>: a
  binding of the file is written to \<^verbatim>\<open>os.environ\<close> only when the key is not already
  set there. The first argument is the bindings parsed from the file (empty when there
  is no file), the second the process environment; the result is \<^verbatim>\<open>os.environ\<close> as
  the call leaves it when the file could be read.
\<close>

definition load_dotenv :: "environ \<Rightarrow> environ \<Rightarrow> environ" where
  "load_dotenv dotenv env = (\<lambda>k. case env k of Some v \<Rightarrow> Some v | None \<Rightarrow> dotenv k)"

text \<open>\<^verbatim>\<open>os.environ.get(key)\<close>: the value, or \<^verbatim>\<open>None\<close>.\<close>

definition environ_get :: "environ \<Rightarrow> string \<Rightarrow> string option" where
  "environ_get env key = env key"

text \<open>\<^verbatim>\<open>os.environ.get(key, default)\<close> and \<^verbatim>\<open>os.getenv(key, default)\<close>.\<close>

definition getenv :: "environ \<Rightarrow> string \<Rightarrow> string \<Rightarrow> string" where
  "getenv env key dflt = (case env key of Some v \<Rightarrow> v | None \<Rightarrow> dflt)"

text \<open>
  \<^verbatim>\<open>s.split(sep)\<close> for a one-character separator: the text is cut at every occurrence
  of the separator, and empty pieces are kept, so the result of splitting the empty
  string is the list holding the empty string. The \<open>[]\<close> branch of the \<open>case\<close> is never
  taken.
\<close>

fun str_split :: "char \<Rightarrow> string \<Rightarrow> string list" where
  "str_split sep [] = [[]]"
| "str_split sep (c # cs) =
     (if c = sep then [] # str_split sep cs
      else (case str_split sep cs of
              [] \<Rightarrow> [[c]]
            | seg # segs \<Rightarrow> (c # seg) # segs))"

text \<open>\<^verbatim>\<open>sep.join(parts)\<close>, used to state what \<open>str_split\<close> computes.\<close>

fun str_join :: "char \<Rightarrow> string list \<Rightarrow> string" where
  "str_join sep [] = []"
| "str_join sep [seg] = seg"
| "str_join sep (seg # segs) = seg @ sep # str_join sep segs"

text \<open>\<^verbatim>\<open>BASE_DIR / 'uploads'\<close> on a path given by its components.\<close>

definition path_join :: "path \<Rightarrow> string \<Rightarrow> path" where
  "path_join p name = p @ [name]"

subsection \<open>The names the module binds\<close>

record settings =
  ENV :: "string option"
  BASE_DIR :: path
  SECRET_KEY :: string
  DEBUG :: bool
  ALLOWED_HOSTS :: "string list"
  INSTALLED_APPS :: "string list"
  MIDDLEWARE :: "string list"
  ROOT_URLCONF :: string
  TEMPLATES :: pyval
  WSGI_APPLICATION :: string
  DATABASES :: pyval
  AUTH_PASSWORD_VALIDATORS :: pyval
  LANGUAGE_CODE :: string
  TIME_ZONE :: string
  USE_I18N :: bool
  USE_TZ :: bool
  STATIC_URL :: string
  DEFAULT_AUTO_FIELD :: string
  AUTH_USER_MODEL :: string
  REST_FRAMEWORK :: pyval
  CORS_ALLOWED_ORIGINS :: "string list"
  MEDIA_URL :: string
  MEDIA_ROOT :: path
  DEFAULT_AVATAR_URL :: string

definition installed_apps :: "string list" where
  "installed_apps =
     [''django.contrib.admin'', ''django.contrib.auth'', ''django.contrib.contenttypes'',
      ''django.contrib.sessions'', ''django.contrib.messages'', ''django.contrib.staticfiles'',
      ''rest_framework'', ''rest_framework_simplejwt'', ''corsheaders'',
      ''core'', ''core.user'', ''core.auth'', ''core.post'', ''core.comment'']"

definition middleware :: "string list" where
  "middleware =
     [''django.middleware.security.SecurityMiddleware'',
      ''django.contrib.sessions.middleware.SessionMiddleware'',
      ''corsheaders.middleware.CorsMiddleware'',
      ''django.middleware.common.CommonMiddleware'',
      ''django.middleware.csrf.CsrfViewMiddleware'',
      ''django.contrib.auth.middleware.AuthenticationMiddleware'',
      ''django.contrib.messages.middleware.MessageMiddleware'',
      ''django.middleware.clickjacking.XFrameOptionsMiddleware'']"

definition templates :: pyval where
  "templates =
     PyList [PyDict
       [(''BACKEND'', PyStr ''django.template.backends.django.DjangoTemplates''),
        (''DIRS'', PyList []),
        (''APP_DIRS'', PyBool True),
        (''OPTIONS'', PyDict
           [(''context_processors'', PyList
               [PyStr ''django.template.context_processors.debug'',
                PyStr ''django.template.context_processors.request'',
                PyStr ''django.contrib.auth.context_processors.auth'',
                PyStr ''django.contrib.messages.context_processors.messages''])])]]"

definition auth_password_validators :: pyval where
  "auth_password_validators =
     PyList
       [PyDict [(''NAME'', PyStr
          ''django.contrib.auth.password_validation.UserAttributeSimilarityValidator'')],
        PyDict [(''NAME'', PyStr
          ''django.contrib.auth.password_validation.MinimumLengthValidator'')],
        PyDict [(''NAME'', PyStr
          ''django.contrib.auth.password_validation.CommonPasswordValidator'')],
        PyDict [(''NAME'', PyStr
          ''django.contrib.auth.password_validation.NumericPasswordValidator'')]]"

definition rest_framework :: pyval where
  "rest_framework =
     PyDict
       [(''DEFAULT_AUTHENTICATION_CLASSES'',
           PyTuple [PyStr ''rest_framework_simplejwt.authentication.JWTAuthentication'']),
        (''DEFAULT_FILTER_BACKENDS'',
           PyList [PyStr ''django_filters.rest_framework.DjangoFilterBackend'']),
        (''DEFAULT_PAGINATION_CLASS'',
           PyStr ''rest_framework.pagination.LimitOffsetPagination''),
        (''PAGE_SIZE'', PyInt 10)]"

text \<open>The \<^verbatim>\<open>DATABASES\<close> dictionary: every connection parameter is the string that
  \<^verbatim>\<open>os.getenv\<close> returns.\<close>

definition databases :: "environ \<Rightarrow> pyval" where
  "databases env =
     PyDict [(''default'', PyDict
       [(''ENGINE'', PyStr ''django.db.backends.postgresql_psycopg2''),
        (''NAME'', PyStr (getenv env ''DATABASE_NAME'' ''coredb'')),
        (''USER'', PyStr (getenv env ''DATABASE_USER'' ''core'')),
        (''PASSWORD'', PyStr (getenv env ''DATABASE_PASSWORD'' ''wCh29&HE&T83'')),
        (''HOST'', PyStr (getenv env ''DATABASE_HOST'' ''localhost'')),
        (''PORT'', PyStr (getenv env ''DATABASE_PORT'' ''5432''))])]"

text \<open>The module body, given the directory of the project and \<^verbatim>\<open>os.environ\<close> as
  \<^verbatim>\<open>load_dotenv()\<close> left it.\<close>

definition module_body :: "path \<Rightarrow> environ \<Rightarrow> settings" where
  "module_body base env =
     (let env_name = environ_get env ''ENV'' in
      \<lparr> ENV = env_name,
        BASE_DIR = base,
        SECRET_KEY =
          getenv env ''SECRET_KEY'' ''qkl+xdr8aimpf-&x(mi7)dwt^-q77aji#j*d#02-5usa32r9!y'',
        DEBUG = (if env_name = Some ''PROD'' then False else True),
        ALLOWED_HOSTS = str_split CHR '','' (getenv env ''DJANGO_ALLOWED_HOSTS'' ''*''),
        INSTALLED_APPS = installed_apps,
        MIDDLEWARE = middleware,
        ROOT_URLCONF = ''CoreRoot.urls'',
        TEMPLATES = templates,
        WSGI_APPLICATION = ''CoreRoot.wsgi.application'',
        DATABASES = databases env,
        AUTH_PASSWORD_VALIDATORS = auth_password_validators,
        LANGUAGE_CODE = ''en-us'',
        TIME_ZONE = ''UTC'',
        USE_I18N = True,
        USE_TZ = True,
        STATIC_URL = ''/static/'',
        DEFAULT_AUTO_FIELD = ''django.db.models.BigAutoField'',
        AUTH_USER_MODEL = ''core_user.User'',
        REST_FRAMEWORK = rest_framework,
        CORS_ALLOWED_ORIGINS = [''http://localhost:3000'', ''http://127.0.0.1:3000''],
        MEDIA_URL = ''/media/'',
        MEDIA_ROOT = path_join base ''uploads'',
        DEFAULT_AVATAR_URL = ''https://avatars.dicebear.com/api/identicon/.svg'' \<rparr>)"

text \<open>
  What \<^verbatim>\<open>load_dotenv()\<close> meets when it reads the \<^verbatim>\<open>.env\<close> file. Either the file is
  read and parsed into bindings (no bindings when there is no file: the loader then
  reads an empty stream), or opening or decoding it raises: \<^verbatim>\<open>OSError\<close> for a file
  that cannot be opened, \<^verbatim>\<open>UnicodeDecodeError\<close> for one that is not UTF-8. The file is
  read in full before anything is written to \<^verbatim>\<open>os.environ\<close>.
\<close>

datatype py_exception = OSError | UnicodeDecodeError

datatype dotenv_file = Parsed environ | Unreadable py_exception

text \<open>
  The outcome of importing the module. The call of \<^verbatim>\<open>load_dotenv()\<close> is the first
  statement that runs after the imports; the module does not catch what it raises, so
  the import ends there with that exception and binds no name. After it no statement of
  the module raises: every lookup is a \<^verbatim>\<open>get\<close> (absent keys give \<^verbatim>\<open>None\<close> or the
  default), and \<^verbatim>\<open>split\<close> is applied to a value that is always a string.
\<close>

definition import_settings ::
    "path \<Rightarrow> dotenv_file \<Rightarrow> environ \<Rightarrow> py_exception + environ \<times> settings" where
  "import_settings base envfile env =
     (case envfile of
        Unreadable exn \<Rightarrow> Inl exn
      | Parsed dotenv \<Rightarrow>
          (let environ = load_dotenv dotenv env in Inr (environ, module_body base environ)))"

text \<open>The snapshot of a successful import, and \<^verbatim>\<open>DATABASES["default"][k]\<close> in it.\<close>

definition resolved :: "path \<Rightarrow> environ \<Rightarrow> environ \<Rightarrow> settings" where
  "resolved base dotenv env = module_body base (load_dotenv dotenv env)"

definition database_param :: "settings \<Rightarrow> string \<Rightarrow> pyval option" where
  "database_param s k =
     (case py_item (DATABASES s) ''default'' of
        None \<Rightarrow> None
      | Some d \<Rightarrow> py_item d k)"

section \<open>Properties\<close>

subsection \<open>Splitting at a separator\<close>

lemma str_split_not_Nil: "str_split sep s \<noteq> []"
  by (induction s) (auto split: list.splits)

lemma str_join_Cons: "segs \<noteq> [] \<Longrightarrow> str_join sep (seg # segs) = seg @ sep # str_join sep segs"
  by (cases segs) simp_all

lemma str_join_split: "str_join sep (str_split sep s) = s"
proof (induction s)
  case Nil
  show ?case by simp
next
  case (Cons c cs)
  show ?case
  proof (cases "c = sep")
    case True
    with Cons show ?thesis
      by (simp add: str_join_Cons str_split_not_Nil)
  next
    case False
    obtain seg segs where split_cs: "str_split sep cs = seg # segs"
      using str_split_not_Nil [of sep cs] by (cases "str_split sep cs") auto
    have "str_join sep ((c # seg) # segs) = c # str_join sep (seg # segs)"
      by (cases segs) simp_all
    with Cons False split_cs show ?thesis by simp
  qed
qed

lemma length_str_split: "length (str_split sep s) = Suc (count_list s sep)"
proof (induction s)
  case Nil
  show ?case by simp
next
  case (Cons c cs)
  then show ?case
    by (cases "str_split sep cs") auto
qed

lemma str_split_segments: "seg \<in> set (str_split sep s) \<Longrightarrow> sep \<notin> set seg"
proof (induction s arbitrary: seg)
  case Nil
  then show ?case by simp
next
  case (Cons c cs)
  then show ?case
    by (cases "str_split sep cs") (auto split: if_splits)
qed

subsection \<open>What the import leaves\<close>

lemma load_dotenv_empty: "load_dotenv Map.empty Map.empty = Map.empty"
  by (simp add: load_dotenv_def)

lemma load_dotenv_twice: "load_dotenv dotenv (load_dotenv dotenv env) = load_dotenv dotenv env"
  by (rule ext) (simp add: load_dotenv_def split: option.splits)


lemma import_settings_unreadable: "import_settings base (Unreadable exn) env = Inl exn"
  by (simp add: import_settings_def)

lemma load_dotenv_process_first: "env key = Some v \<Longrightarrow> load_dotenv dotenv env key = Some v"
  by (simp add: load_dotenv_def)

lemma port_of_resolved:
  "database_param (resolved base dotenv env) ''PORT''
     = Some (PyStr (getenv (load_dotenv dotenv env) ''DATABASE_PORT'' ''5432''))"
  by (simp add: database_param_def resolved_def module_body_def databases_def Let_def)

lemma allowed_hosts_of_resolved:
  "ALLOWED_HOSTS (resolved base dotenv env)
     = str_split CHR '','' (getenv (load_dotenv dotenv env) ''DJANGO_ALLOWED_HOSTS'' ''*'')"
  by (simp add: resolved_def module_body_def Let_def)

subsection \<open>The claims\<close>

text \<open>
  C1. The debug flag is a function of the resolved \<^verbatim>\<open>ENV\<close> value alone: it is false
  when \<^verbatim>\<open>ENV\<close> resolves to \<^verbatim>\<open>"PROD"\<close> and true for every other value, also when
  \<^verbatim>\<open>ENV\<close> is in no source.
\<close>

theorem debug_iff_env_not_prod:
  "ENV (resolved base dotenv env) = load_dotenv dotenv env ''ENV''
   \<and> DEBUG (resolved base dotenv env) = (ENV (resolved base dotenv env) \<noteq> Some ''PROD'')"
  by (simp add: resolved_def module_body_def environ_get_def Let_def)

text \<open>
  C2, as the specification states it: the raw value \<^verbatim>\<open>"a,b,,c"\<close> resolves to
  \<^verbatim>\<open>["a","b","c"]\<close> and the raw value \<^verbatim>\<open>""\<close> to the default list. The module keeps
  the empty segment of the first and answers \<^verbatim>\<open>[""]\<close>, not \<^verbatim>\<open>["*"]\<close>, for the
  second.
\<close>

theorem allowed_hosts_drops_empty_counterexample:
  "ALLOWED_HOSTS (resolved [] Map.empty [''DJANGO_ALLOWED_HOSTS'' \<mapsto> ''a,b,,c''])
     \<noteq> [''a'', ''b'', ''c'']
   \<and> ALLOWED_HOSTS (resolved [] Map.empty [''DJANGO_ALLOWED_HOSTS'' \<mapsto> ''''])
     \<noteq> [''*'']"
  by (simp add: allowed_hosts_of_resolved load_dotenv_def getenv_def)

text \<open>
  C2, amended. A raw value of \<^verbatim>\<open>DJANGO_ALLOWED_HOSTS\<close> found in the sources is cut at
  every comma and every segment is kept, the empty ones too: joining the resolved list
  with commas gives the raw value back, the list has one element more than the raw value
  has commas, and no element holds a comma. So \<^verbatim>\<open>"a,b,,c"\<close> resolves to
  \<^verbatim>\<open>["a","b","","c"]\<close> and \<^verbatim>\<open>""\<close> to \<^verbatim>\<open>[""]\<close>.
\<close>

theorem allowed_hosts_keeps_every_segment:
  assumes "load_dotenv dotenv env ''DJANGO_ALLOWED_HOSTS'' = Some raw"
  shows "ALLOWED_HOSTS (resolved base dotenv env) = str_split CHR '','' raw
    \<and> str_join CHR '','' (ALLOWED_HOSTS (resolved base dotenv env)) = raw
    \<and> length (ALLOWED_HOSTS (resolved base dotenv env)) = Suc (count_list raw CHR '','')
    \<and> (\<forall>seg \<in> set (ALLOWED_HOSTS (resolved base dotenv env)). CHR '','' \<notin> set seg)
    \<and> str_split CHR '','' ''a,b,,c'' = [''a'', ''b'', '''', ''c'']
    \<and> str_split CHR '','' '''' = ['''']"
proof -
  have hosts: "ALLOWED_HOSTS (resolved base dotenv env) = str_split CHR '','' raw"
    using assms by (simp add: allowed_hosts_of_resolved getenv_def)
  show ?thesis
    unfolding hosts
    by (simp add: str_join_split length_str_split str_split_segments)
qed

theorem allowed_hosts_keeps_every_segment_witness:
  "load_dotenv Map.empty [''DJANGO_ALLOWED_HOSTS'' \<mapsto> ''a,b,,c''] ''DJANGO_ALLOWED_HOSTS''
     = Some ''a,b,,c''
   \<and> ALLOWED_HOSTS (resolved [] Map.empty [''DJANGO_ALLOWED_HOSTS'' \<mapsto> ''a,b,,c''])
     = [''a'', ''b'', '''', ''c'']"
proof -
  have present:
    "load_dotenv Map.empty [''DJANGO_ALLOWED_HOSTS'' \<mapsto> ''a,b,,c''] ''DJANGO_ALLOWED_HOSTS''
       = Some ''a,b,,c''"
    by (simp add: load_dotenv_def)
  from allowed_hosts_keeps_every_segment [OF present, of "[]"] present
  show ?thesis by simp
qed

text \<open>
  C3. Against empty sources every lookup with a default answers that default, so each
  key with a declared default resolves to it: the secret key and the five database
  parameters to their literals, and the allowed hosts to the list holding the declared
  \<^verbatim>\<open>"*"\<close>.
\<close>

theorem defaults_on_empty_sources:
  "getenv (load_dotenv Map.empty Map.empty) key dflt = dflt
   \<and> SECRET_KEY (resolved base Map.empty Map.empty)
       = ''qkl+xdr8aimpf-&x(mi7)dwt^-q77aji#j*d#02-5usa32r9!y''
   \<and> ALLOWED_HOSTS (resolved base Map.empty Map.empty) = [''*'']
   \<and> database_param (resolved base Map.empty Map.empty) ''NAME'' = Some (PyStr ''coredb'')
   \<and> database_param (resolved base Map.empty Map.empty) ''USER'' = Some (PyStr ''core'')
   \<and> database_param (resolved base Map.empty Map.empty) ''PASSWORD''
       = Some (PyStr ''wCh29&HE&T83'')
   \<and> database_param (resolved base Map.empty Map.empty) ''HOST'' = Some (PyStr ''localhost'')
   \<and> database_param (resolved base Map.empty Map.empty) ''PORT'' = Some (PyStr ''5432'')"
  by (simp add: resolved_def load_dotenv_empty module_body_def databases_def getenv_def
      database_param_def Let_def)

text \<open>
  C4. A key set in the process environment keeps that value when the environment file
  binds it too, and the setting resolved from the key is the one of the process
  environment: every lookup of the key after \<^verbatim>\<open>load_dotenv()\<close> answers the process
  value; each of the eight keys the module reads resolves its setting to that value
  (\<^verbatim>\<open>ENV\<close>, the secret key, the allowed hosts as the split of it, the five database
  parameters); and the import does not depend on what the file binds the key to.
\<close>

theorem process_environment_wins:
  assumes "env key = Some v" and "dotenv key = Some w"
  shows "environ_get (load_dotenv dotenv env) key = Some v
    \<and> getenv (load_dotenv dotenv env) key dflt = v
    \<and> (key = ''ENV'' \<longrightarrow> ENV (resolved base dotenv env) = Some v)
    \<and> (key = ''SECRET_KEY'' \<longrightarrow> SECRET_KEY (resolved base dotenv env) = v)
    \<and> (key = ''DJANGO_ALLOWED_HOSTS'' \<longrightarrow>
         ALLOWED_HOSTS (resolved base dotenv env) = str_split CHR '','' v)
    \<and> (key = ''DATABASE_NAME'' \<longrightarrow>
         database_param (resolved base dotenv env) ''NAME'' = Some (PyStr v))
    \<and> (key = ''DATABASE_USER'' \<longrightarrow>
         database_param (resolved base dotenv env) ''USER'' = Some (PyStr v))
    \<and> (key = ''DATABASE_PASSWORD'' \<longrightarrow>
         database_param (resolved base dotenv env) ''PASSWORD'' = Some (PyStr v))
    \<and> (key = ''DATABASE_HOST'' \<longrightarrow>
         database_param (resolved base dotenv env) ''HOST'' = Some (PyStr v))
    \<and> (key = ''DATABASE_PORT'' \<longrightarrow>
         database_param (resolved base dotenv env) ''PORT'' = Some (PyStr v))
    \<and> import_settings base (Parsed (dotenv(key := x))) env
        = import_settings base (Parsed dotenv) env"
proof -
  have same: "load_dotenv (dotenv(key := x)) env = load_dotenv dotenv env"
    using assms(1) by (auto simp: load_dotenv_def fun_eq_iff split: option.splits)
  have lookup: "load_dotenv dotenv env key = Some v"
    using assms(1) by (rule load_dotenv_process_first)
  have calls: "environ_get (load_dotenv dotenv env) key = Some v
      \<and> getenv (load_dotenv dotenv env) key dflt = v"
    by (simp add: lookup environ_get_def getenv_def)
  have top: "(key = ''ENV'' \<longrightarrow> ENV (resolved base dotenv env) = Some v)
      \<and> (key = ''SECRET_KEY'' \<longrightarrow> SECRET_KEY (resolved base dotenv env) = v)
      \<and> (key = ''DJANGO_ALLOWED_HOSTS'' \<longrightarrow>
           ALLOWED_HOSTS (resolved base dotenv env) = str_split CHR '','' v)"
    using lookup
    by (auto simp: resolved_def module_body_def environ_get_def getenv_def Let_def)
  have db: "(key = ''DATABASE_NAME'' \<longrightarrow>
           database_param (resolved base dotenv env) ''NAME'' = Some (PyStr v))
      \<and> (key = ''DATABASE_USER'' \<longrightarrow>
           database_param (resolved base dotenv env) ''USER'' = Some (PyStr v))
      \<and> (key = ''DATABASE_PASSWORD'' \<longrightarrow>
           database_param (resolved base dotenv env) ''PASSWORD'' = Some (PyStr v))
      \<and> (key = ''DATABASE_HOST'' \<longrightarrow>
           database_param (resolved base dotenv env) ''HOST'' = Some (PyStr v))
      \<and> (key = ''DATABASE_PORT'' \<longrightarrow>
           database_param (resolved base dotenv env) ''PORT'' = Some (PyStr v))"
    using lookup
    by (auto simp: resolved_def module_body_def databases_def database_param_def
        getenv_def Let_def)
  have unused: "import_settings base (Parsed (dotenv(key := x))) env
      = import_settings base (Parsed dotenv) env"
    by (simp add: import_settings_def same)
  from calls top db unused show ?thesis by simp
qed

theorem process_environment_wins_witness:
  "[''SECRET_KEY'' \<mapsto> ''from-process''] ''SECRET_KEY'' = Some ''from-process''
   \<and> [''SECRET_KEY'' \<mapsto> ''from-file''] ''SECRET_KEY'' = Some ''from-file''
   \<and> getenv (load_dotenv [''SECRET_KEY'' \<mapsto> ''from-file''] [''SECRET_KEY'' \<mapsto> ''from-process''])
       ''SECRET_KEY'' ''fallback'' = ''from-process''
   \<and> SECRET_KEY (resolved [] [''SECRET_KEY'' \<mapsto> ''from-file''] [''SECRET_KEY'' \<mapsto> ''from-process''])
       = ''from-process''
   \<and> database_param
       (resolved [] [''DATABASE_PORT'' \<mapsto> ''6543''] [''DATABASE_PORT'' \<mapsto> ''7000'']) ''PORT''
       = Some (PyStr ''7000'')
   \<and> ENV (resolved [] [''ENV'' \<mapsto> ''PROD''] [''ENV'' \<mapsto> ''DEV'']) = Some ''DEV''
   \<and> ALLOWED_HOSTS
       (resolved [] [''DJANGO_ALLOWED_HOSTS'' \<mapsto> ''a.org''] [''DJANGO_ALLOWED_HOSTS'' \<mapsto> ''b.org,c.org''])
       = [''b.org'', ''c.org'']
   \<and> database_param
       (resolved [] [''DATABASE_NAME'' \<mapsto> ''from-file''] [''DATABASE_NAME'' \<mapsto> ''from-process'']) ''NAME''
       = Some (PyStr ''from-process'')
   \<and> database_param
       (resolved [] [''DATABASE_USER'' \<mapsto> ''from-file''] [''DATABASE_USER'' \<mapsto> ''from-process'']) ''USER''
       = Some (PyStr ''from-process'')
   \<and> database_param
       (resolved [] [''DATABASE_PASSWORD'' \<mapsto> ''from-file''] [''DATABASE_PASSWORD'' \<mapsto> ''from-process'']) ''PASSWORD''
       = Some (PyStr ''from-process'')
   \<and> database_param
       (resolved [] [''DATABASE_HOST'' \<mapsto> ''from-file''] [''DATABASE_HOST'' \<mapsto> ''from-process'']) ''HOST''
       = Some (PyStr ''from-process'')"
proof -
  note secret = process_environment_wins
    [where env = "[''SECRET_KEY'' \<mapsto> ''from-process'']" and key = "''SECRET_KEY''"
       and v = "''from-process''" and dotenv = "[''SECRET_KEY'' \<mapsto> ''from-file'']"
       and w = "''from-file''" and dflt = "''fallback''" and base = "[]"]
  note port = process_environment_wins
    [where env = "[''DATABASE_PORT'' \<mapsto> ''7000'']" and key = "''DATABASE_PORT''"
       and v = "''7000''" and dotenv = "[''DATABASE_PORT'' \<mapsto> ''6543'']"
       and w = "''6543''" and base = "[]"]
  note name = process_environment_wins
    [where env = "[''ENV'' \<mapsto> ''DEV'']" and key = "''ENV''"
       and v = "''DEV''" and dotenv = "[''ENV'' \<mapsto> ''PROD'']"
       and w = "''PROD''" and base = "[]"]
  note hosts = process_environment_wins
    [where env = "[''DJANGO_ALLOWED_HOSTS'' \<mapsto> ''b.org,c.org'']"
       and key = "''DJANGO_ALLOWED_HOSTS''"
       and v = "''b.org,c.org''" and dotenv = "[''DJANGO_ALLOWED_HOSTS'' \<mapsto> ''a.org'']"
       and w = "''a.org''" and base = "[]"]
  note db = process_environment_wins
    [where env = "[''DATABASE_NAME'' \<mapsto> ''from-process'']" and key = "''DATABASE_NAME''"
       and v = "''from-process''" and dotenv = "[''DATABASE_NAME'' \<mapsto> ''from-file'']"
       and w = "''from-file''" and base = "[]"]
  note usr = process_environment_wins
    [where env = "[''DATABASE_USER'' \<mapsto> ''from-process'']" and key = "''DATABASE_USER''"
       and v = "''from-process''" and dotenv = "[''DATABASE_USER'' \<mapsto> ''from-file'']"
       and w = "''from-file''" and base = "[]"]
  note pw = process_environment_wins
    [where env = "[''DATABASE_PASSWORD'' \<mapsto> ''from-process'']" and key = "''DATABASE_PASSWORD''"
       and v = "''from-process''" and dotenv = "[''DATABASE_PASSWORD'' \<mapsto> ''from-file'']"
       and w = "''from-file''" and base = "[]"]
  note host = process_environment_wins
    [where env = "[''DATABASE_HOST'' \<mapsto> ''from-process'']" and key = "''DATABASE_HOST''"
       and v = "''from-process''" and dotenv = "[''DATABASE_HOST'' \<mapsto> ''from-file'']"
       and w = "''from-file''" and base = "[]"]
  have "SECRET_KEY (resolved [] [''SECRET_KEY'' \<mapsto> ''from-file''] [''SECRET_KEY'' \<mapsto> ''from-process''])
      = ''from-process''
    \<and> getenv (load_dotenv [''SECRET_KEY'' \<mapsto> ''from-file''] [''SECRET_KEY'' \<mapsto> ''from-process''])
       ''SECRET_KEY'' ''fallback'' = ''from-process''"
    using secret by simp
  moreover have "database_param
       (resolved [] [''DATABASE_PORT'' \<mapsto> ''6543''] [''DATABASE_PORT'' \<mapsto> ''7000'']) ''PORT''
      = Some (PyStr ''7000'')"
    using port by simp
  moreover have "ENV (resolved [] [''ENV'' \<mapsto> ''PROD''] [''ENV'' \<mapsto> ''DEV'']) = Some ''DEV''"
    using name by simp
  moreover have "ALLOWED_HOSTS
       (resolved [] [''DJANGO_ALLOWED_HOSTS'' \<mapsto> ''a.org''] [''DJANGO_ALLOWED_HOSTS'' \<mapsto> ''b.org,c.org''])
      = [''b.org'', ''c.org'']"
    using hosts by simp
  moreover have "database_param
       (resolved [] [''DATABASE_NAME'' \<mapsto> ''from-file''] [''DATABASE_NAME'' \<mapsto> ''from-process'']) ''NAME''
       = Some (PyStr ''from-process'')"
    using db by simp
  moreover have "database_param
       (resolved [] [''DATABASE_USER'' \<mapsto> ''from-file''] [''DATABASE_USER'' \<mapsto> ''from-process'']) ''USER''
       = Some (PyStr ''from-process'')"
    using usr by simp
  moreover have "database_param
       (resolved [] [''DATABASE_PASSWORD'' \<mapsto> ''from-file''] [''DATABASE_PASSWORD'' \<mapsto> ''from-process'']) ''PASSWORD''
       = Some (PyStr ''from-process'')"
    using pw by simp
  moreover have "database_param
       (resolved [] [''DATABASE_HOST'' \<mapsto> ''from-file''] [''DATABASE_HOST'' \<mapsto> ''from-process'']) ''HOST''
       = Some (PyStr ''from-process'')"
    using host by simp
  ultimately show ?thesis by simp
qed

text \<open>
  C5, as the specification states it: with the single source
  \<^verbatim>\<open>{"DATABASE_PORT": "6543"}\<close> the resolved port is the integer 6543. The module
  stores what \<^verbatim>\<open>os.getenv\<close> returns, which is the string.
\<close>

theorem port_is_integer_counterexample:
  "database_param (resolved [] Map.empty [''DATABASE_PORT'' \<mapsto> ''6543'']) ''PORT''
     \<noteq> Some (PyInt 6543)"
  by (simp add: port_of_resolved load_dotenv_def getenv_def)

text \<open>
  C5, amended. A raw value of \<^verbatim>\<open>DATABASE_PORT\<close> found in the sources is the resolved
  port as it stands, a string: with the source \<^verbatim>\<open>{"DATABASE_PORT": "6543"}\<close> the
  resolved port is the string \<^verbatim>\<open>"6543"\<close>.
\<close>

theorem port_is_raw_string:
  assumes "load_dotenv dotenv env ''DATABASE_PORT'' = Some raw"
  shows "database_param (resolved base dotenv env) ''PORT'' = Some (PyStr raw)"
  using assms by (simp add: port_of_resolved getenv_def)

theorem port_is_raw_string_witness:
  "load_dotenv Map.empty [''DATABASE_PORT'' \<mapsto> ''6543''] ''DATABASE_PORT'' = Some ''6543''
   \<and> database_param (resolved [] Map.empty [''DATABASE_PORT'' \<mapsto> ''6543'']) ''PORT''
       = Some (PyStr ''6543'')"
proof -
  have present:
    "load_dotenv Map.empty [''DATABASE_PORT'' \<mapsto> ''6543''] ''DATABASE_PORT'' = Some ''6543''"
    by (simp add: load_dotenv_def)
  from port_is_raw_string [OF present, of "[]"] present
  show ?thesis by simp
qed







text \<open>
  C8. Importing the module again, in the process environment that the first import left
  and with the same environment file, leaves that environment as it is and produces the
  same snapshot: the whole outcome of the second import equals that of the first. An
  import that the environment file makes fail writes nothing to the environment and
  fails with the same exception each time.
\<close>

theorem import_idempotent:
  "import_settings base (Parsed dotenv) (load_dotenv dotenv env)
     = import_settings base (Parsed dotenv) env
   \<and> (case import_settings base (Parsed dotenv) env of
         Inl err \<Rightarrow> False
       | Inr (environ, snapshot) \<Rightarrow>
           import_settings base (Parsed dotenv) environ = Inr (environ, snapshot))
   \<and> (case import_settings base envfile env of
         Inl err \<Rightarrow> import_settings base envfile env = Inl err \<and> envfile = Unreadable err
       | Inr (environ, snapshot) \<Rightarrow>
           import_settings base envfile environ = Inr (environ, snapshot))"
  by (cases envfile) (simp_all add: import_settings_def load_dotenv_twice Let_def)

text \<open>
  C9, as the specification states it: a CORS-origins value supplied in a source
  determines the resolved CORS origin list. The list is the same with and without such a
  value, and is not the value supplied.
\<close>

theorem cors_from_source_counterexample:
  "CORS_ALLOWED_ORIGINS
     (resolved [] Map.empty [''CORS_ALLOWED_ORIGINS'' \<mapsto> ''https://example.com''])
     \<noteq> [''https://example.com'']
   \<and> CORS_ALLOWED_ORIGINS
     (resolved [] Map.empty [''CORS_ALLOWED_ORIGINS'' \<mapsto> ''https://example.com''])
     = CORS_ALLOWED_ORIGINS (resolved [] Map.empty Map.empty)"
  by (simp add: resolved_def module_body_def Let_def)

text \<open>
  C9, amended. The CORS origin list is the fixed list of the two local origins, whatever
  the sources hold.
\<close>

theorem cors_is_fixed:
  "CORS_ALLOWED_ORIGINS (resolved base dotenv env)
     = [''http://localhost:3000'', ''http://127.0.0.1:3000'']"
  by (simp add: resolved_def module_body_def Let_def)

text \<open>
  C10. The resolved allowed-hosts list is never empty, whatever \<^verbatim>\<open>DJANGO_ALLOWED_HOSTS\<close>
  is in the sources: splitting any string at a separator gives at least one element
  (one more than the string has separators), and the default \<^verbatim>\<open>"*"\<close> gives
  \<^verbatim>\<open>["*"]\<close>.
\<close>

theorem allowed_hosts_not_empty:
  "ALLOWED_HOSTS (resolved base dotenv env) \<noteq> []
   \<and> str_split sep s \<noteq> []
   \<and> 1 \<le> length (str_split sep s)
   \<and> str_split CHR '','' ''*'' = [''*'']
   \<and> ALLOWED_HOSTS (resolved base Map.empty (Map.empty(''DJANGO_ALLOWED_HOSTS'' \<mapsto> '''')))
       = ['''']"
  by (simp add: allowed_hosts_of_resolved str_split_not_Nil length_str_split
      load_dotenv_def getenv_def)

end
